theory Spec2Isabelle
  imports Complex_Main
begin

section \<open>Data model\<close>

text \<open>
  The bookstore backend keeps its documents in three collections that matter for the cart
  and order engine: books, carts and orders. The handlers of
  \<^verbatim>\<open>routes/cart.routes.js\<close>, \<^verbatim>\<open>routes/order.routes.js\<close> and of the book routes are
  embedded as functions from a store (and the request's parameters) to the new store and
  the HTTP response.

  Conventions of the embedding:
  \<^item> An ObjectId is a natural number; the store carries the next unused one, which stands
    for the driver's generation of a new unique id.
  \<^item> A JavaScript Number is a rational number. The sums and products that compute the
    total of a cart are rounded as the arithmetic of IEEE doubles rounds them (section
    Numbers); NaN and the infinities are not modelled. The one other operation on
    numbers, the \<^verbatim>\<open>+=\<close> on the quantity of a line, is written with \<open>+\<close>.
  \<^item> A field of a request body that may be missing is an option, \<open>None\<close> for
    \<^verbatim>\<open>undefined\<close>. Bodies whose fields have another JSON type than the one the handler
    expects (a string where a number is meant, a malformed id) are outside the model.
  \<^item> A failure of the database itself is outside the model; the rejections of the schema
    validators, which every \<^verbatim>\<open>save()\<close> runs on the whole document, are inside.
  \<^item> The authentication middleware is outside the model: every handler receives the id
    of the authenticated user.
\<close>

type_synonym oid = nat
type_synonym number = rat

text \<open>\<^verbatim>\<open>bookSchema\<close>: the fields the handlers read or the validators check.\<close>

record book =
  b_title :: string
  b_author :: string
  b_description :: string
  b_price :: number

text \<open>\<^verbatim>\<open>cartItemSchema\<close>, with the \<^verbatim>\<open>_id\<close> every subdocument gets.\<close>

record cart_item =
  ci_id :: oid
  ci_book :: oid
  ci_quantity :: number
  ci_price :: number

text \<open>
  \<^verbatim>\<open>cartSchema\<close>. The user is unique among the carts: the store keeps the carts by
  their user, and the record holds the other fields.
\<close>

record cart =
  c_items :: "cart_item list"
  c_totalAmount :: number

text \<open>\<^verbatim>\<open>addressSchema\<close>, as a request sends it: every field may be missing.\<close>

record address =
  street :: "string option"
  city :: "string option"
  state :: "string option"
  zipCode :: "string option"
  country :: "string option"

text \<open>\<^verbatim>\<open>orderItemSchema\<close> and \<^verbatim>\<open>orderSchema\<close>.\<close>

record order_item =
  oi_book :: oid
  oi_quantity :: number
  oi_price :: number

record order =
  o_id :: oid
  o_user :: oid
  o_items :: "order_item list"
  o_totalAmount :: number
  o_shippingAddress :: "address option"
  o_paymentMethod :: "string option"
  o_status :: string
  o_trackingNumber :: string

text \<open>
  The store: the catalog by book id, the carts by their (unique) user, the orders in the
  order of their creation, and the next unused id.
\<close>

record store =
  books :: "oid \<rightharpoonup> book"
  carts :: "oid \<rightharpoonup> cart"
  orders :: "order list"
  next_id :: oid

text \<open>What a handler sends: the status and the JSON body.\<close>

datatype body =
  Message string
  | ErrorMessage string
  | CartJson cart
  | ClearedJson string cart
  | OrderJson order
  | BookJson book
  | DeletedJson string oid string

type_synonym response = "nat \<times> body"

datatype error = ValidationError | TypeError

section \<open>Numbers\<close>

text \<open>
  The total of a cart is computed with the \<^verbatim>\<open>+\<close> and \<^verbatim>\<open>*\<close> of JavaScript, which are
  those of IEEE 754 doubles: the exact result, rounded to the nearest double, to the one
  with an even significand when two are equally near. A double is a multiple of
  \<^verbatim>\<open>2^-1074\<close> with a significand of at most 53 bits. \<open>round_grid\<close> rounds a number
  that has been multiplied by \<^verbatim>\<open>2^1074\<close>: below \<^verbatim>\<open>2^53\<close> the doubles are then the
  integers, and above their spacing doubles with every binary order of magnitude. The
  overflow to an infinity, beyond \<^verbatim>\<open>2^1024\<close>, is not modelled.
\<close>

definition round_even :: "rat \<Rightarrow> int" where
  "round_even s =
     (let f = \<lfloor>s\<rfloor>; r = s - of_int f
      in if r < 1 / 2 then f else if 1 / 2 < r then f + 1 else if even f then f else f + 1)"

function round_grid :: "rat \<Rightarrow> rat" where
  "round_grid s = (if \<bar>s\<bar> < 2 ^ 53 then of_int (round_even s) else 2 * round_grid (s / 2))"
  by pat_completeness auto
termination
proof (relation "measure (\<lambda>s. nat \<lfloor>\<bar>s\<bar>\<rfloor>)")
  show "wf (measure (\<lambda>s. nat \<lfloor>\<bar>s\<bar>\<rfloor>))"
    by simp
next
  fix s :: rat
  assume "\<not> \<bar>s\<bar> < 2 ^ 53"
  then have large: "2 \<le> \<bar>s\<bar>"
    by simp
  then have "\<bar>s / 2\<bar> \<le> \<bar>s\<bar> - 1"
    by simp
  then have "\<lfloor>\<bar>s / 2\<bar>\<rfloor> \<le> \<lfloor>\<bar>s\<bar> - 1\<rfloor>"
    by (rule floor_mono)
  also have "\<dots> = \<lfloor>\<bar>s\<bar>\<rfloor> - 1"
    by simp
  finally have "\<lfloor>\<bar>s / 2\<bar>\<rfloor> < \<lfloor>\<bar>s\<bar>\<rfloor>"
    by simp
  moreover have "0 < \<lfloor>\<bar>s\<bar>\<rfloor>"
    using large by (simp add: floor_less_iff not_less)
  ultimately show "(s / 2, s) \<in> measure (\<lambda>s. nat \<lfloor>\<bar>s\<bar>\<rfloor>)"
    by simp
qed

declare round_grid.simps [simp del]

definition round_double :: "rat \<Rightarrow> rat" where
  "round_double q = round_grid (q * 2 ^ 1074) / 2 ^ 1074"

text \<open>The \<^verbatim>\<open>+\<close> and the \<^verbatim>\<open>*\<close> of two doubles.\<close>

definition plus_double :: "number \<Rightarrow> number \<Rightarrow> number" where
  "plus_double a b = round_double (a + b)"

definition times_double :: "number \<Rightarrow> number \<Rightarrow> number" where
  "times_double a b = round_double (a * b)"

section \<open>Arrays\<close>

text \<open>
  \<^verbatim>\<open>Array.prototype.findIndex\<close>: the first index whose element satisfies the predicate,
  -1 when there is none.
\<close>

fun findIndexFrom :: "('a \<Rightarrow> bool) \<Rightarrow> int \<Rightarrow> 'a list \<Rightarrow> int" where
  "findIndexFrom P i [] = - 1"
| "findIndexFrom P i (x # xs) = (if P x then i else findIndexFrom P (i + 1) xs)"

definition findIndex :: "('a \<Rightarrow> bool) \<Rightarrow> 'a list \<Rightarrow> int" where
  "findIndex P xs = findIndexFrom P 0 xs"

text \<open>
  The \<^verbatim>\<open>reduce\<close> that every cart handler and the pre-save hook run, on doubles:
  \<^verbatim>\<open>(total, item) => total + (item.price * item.quantity)\<close>, from 0.
\<close>

definition reduce_total :: "cart_item list \<Rightarrow> number" where
  "reduce_total items =
     foldl (\<lambda>total item. plus_double total (times_double (ci_price item) (ci_quantity item))) 0 items"

section \<open>The cart model: validation, the pre-save hook, save\<close>

text \<open>The validators of \<^verbatim>\<open>cartItemSchema\<close>: \<^verbatim>\<open>quantity: { min: 1 }\<close>.\<close>

definition cart_item_valid :: "cart_item \<Rightarrow> bool" where
  "cart_item_valid item = (1 \<le> ci_quantity item)"

definition cart_valid :: "cart \<Rightarrow> bool" where
  "cart_valid c = list_all cart_item_valid (c_items c)"

text \<open>\<^verbatim>\<open>cartSchema.pre('save')\<close>.\<close>

definition cart_pre_save :: "cart \<Rightarrow> cart" where
  "cart_pre_save c = c\<lparr>c_totalAmount := reduce_total (c_items c)\<rparr>"

text \<open>
  \<^verbatim>\<open>cart.save()\<close> of the cart of user \<open>u\<close>: validation first, then the pre-save
  hook, then the write. It returns the store and the document as written.
\<close>

definition cart_save :: "store \<Rightarrow> oid \<Rightarrow> cart \<Rightarrow> error + (store \<times> cart)" where
  "cart_save st u c =
     (if cart_valid c
      then (let c' = cart_pre_save c in Inr (st\<lparr>carts := (carts st)(u \<mapsto> c')\<rparr>, c'))
      else Inl ValidationError)"

text \<open>\<^verbatim>\<open>new Cart({ user, items: [], totalAmount: 0 })\<close>.\<close>

definition new_cart :: cart where
  "new_cart = \<lparr>c_items = [], c_totalAmount = 0\<rparr>"

section \<open>The cart routes\<close>

text \<open>\<^verbatim>\<open>GET /cart\<close>.\<close>

definition get_cart :: "store \<Rightarrow> oid \<Rightarrow> store \<times> response" where
  "get_cart st u =
     (case carts st u of
        Some cart \<Rightarrow> (st, (200, CartJson cart))
      | None \<Rightarrow>
          (case cart_save st u new_cart of
             Inl e \<Rightarrow> (st, (500, ErrorMessage ''Error retrieving cart''))
           | Inr (st', cart) \<Rightarrow> (st', (200, CartJson cart))))"

text \<open>
  \<^verbatim>\<open>POST /cart/add\<close>, up to the call of \<^verbatim>\<open>save\<close>: the cart document the handler has
  built, and whether it pushed a new item (which used a new id).
\<close>

definition add_item_doc :: "store \<Rightarrow> cart \<Rightarrow> oid \<Rightarrow> number \<Rightarrow> book \<Rightarrow> cart \<times> bool" where
  "add_item_doc st cart bookId quantity bk =
     (let existingItemIndex = findIndex (\<lambda>item. ci_book item = bookId) (c_items cart);
          items' =
            (if existingItemIndex \<ge> 0
             then (c_items cart)[nat existingItemIndex :=
                     (c_items cart ! nat existingItemIndex)
                       \<lparr>ci_quantity := ci_quantity (c_items cart ! nat existingItemIndex) + quantity\<rparr>]
             else c_items cart @
                    [\<lparr>ci_id = next_id st, ci_book = bookId, ci_quantity = quantity, ci_price = b_price bk\<rparr>])
      in (cart\<lparr>c_items := items', c_totalAmount := reduce_total items'\<rparr>, \<not> existingItemIndex \<ge> 0))"

definition add_item :: "store \<Rightarrow> oid \<Rightarrow> oid \<Rightarrow> number option \<Rightarrow> store \<times> response" where
  "add_item st u bookId quantity_opt =
     (let quantity = (case quantity_opt of None \<Rightarrow> 1 | Some q \<Rightarrow> q) in
      case books st bookId of
        None \<Rightarrow> (st, (404, Message ''Book not found''))
      | Some bk \<Rightarrow>
          (let cart = (case carts st u of Some c \<Rightarrow> c | None \<Rightarrow> new_cart);
               (cart', pushed) = add_item_doc st cart bookId quantity bk
           in case cart_save st u cart' of
                Inl e \<Rightarrow> (st, (500, ErrorMessage ''Error adding to cart''))
              | Inr (st', updatedCart) \<Rightarrow>
                  (st'\<lparr>next_id := (if pushed then next_id st + 1 else next_id st)\<rparr>,
                   (200, CartJson updatedCart))))"

text \<open>\<^verbatim>\<open>PUT /cart/update/:itemId\<close>. \<^verbatim>\<open>!quantity\<close> holds of a missing quantity and of 0.\<close>

definition update_item :: "store \<Rightarrow> oid \<Rightarrow> oid \<Rightarrow> number option \<Rightarrow> store \<times> response" where
  "update_item st u itemId quantity_opt =
     (case quantity_opt of
        None \<Rightarrow> (st, (400, Message ''Quantity must be at least 1''))
      | Some quantity \<Rightarrow>
          if quantity = 0 \<or> quantity < 1 then (st, (400, Message ''Quantity must be at least 1''))
          else
            (case carts st u of
               None \<Rightarrow> (st, (404, Message ''Cart not found''))
             | Some cart \<Rightarrow>
                 (let itemIndex = findIndex (\<lambda>item. ci_id item = itemId) (c_items cart) in
                  if itemIndex = - 1 then (st, (404, Message ''Item not found in cart''))
                  else
                    (let items' = (c_items cart)[nat itemIndex :=
                                     (c_items cart ! nat itemIndex)\<lparr>ci_quantity := quantity\<rparr>];
                         cart' = cart\<lparr>c_items := items', c_totalAmount := reduce_total items'\<rparr>
                     in case cart_save st u cart' of
                          Inl e \<Rightarrow> (st, (500, ErrorMessage ''Error updating cart''))
                        | Inr (st', updatedCart) \<Rightarrow> (st', (200, CartJson updatedCart))))))"

text \<open>\<^verbatim>\<open>DELETE /cart/remove/:itemId\<close>.\<close>

definition remove_item :: "store \<Rightarrow> oid \<Rightarrow> oid \<Rightarrow> store \<times> response" where
  "remove_item st u itemId =
     (case carts st u of
        None \<Rightarrow> (st, (404, Message ''Cart not found''))
      | Some cart \<Rightarrow>
          (let items' = filter (\<lambda>item. ci_id item \<noteq> itemId) (c_items cart);
               cart' = cart\<lparr>c_items := items', c_totalAmount := reduce_total items'\<rparr>
           in case cart_save st u cart' of
                Inl e \<Rightarrow> (st, (500, ErrorMessage ''Error removing item from cart''))
              | Inr (st', updatedCart) \<Rightarrow> (st', (200, CartJson updatedCart))))"

text \<open>\<^verbatim>\<open>DELETE /cart/clear\<close>.\<close>

definition clear_cart :: "store \<Rightarrow> oid \<Rightarrow> store \<times> response" where
  "clear_cart st u =
     (case carts st u of
        None \<Rightarrow> (st, (404, Message ''Cart not found''))
      | Some cart \<Rightarrow>
          (let cart' = cart\<lparr>c_items := [], c_totalAmount := 0\<rparr>
           in case cart_save st u cart' of
                Inl e \<Rightarrow> (st, (500, ErrorMessage ''Error clearing cart''))
              | Inr (st', saved) \<Rightarrow> (st', (200, ClearedJson ''Cart cleared successfully'' saved))))"

section \<open>The order model\<close>

text \<open>A \<^verbatim>\<open>required\<close> string: present and not empty.\<close>

definition required_string :: "string option \<Rightarrow> bool" where
  "required_string s = (case s of None \<Rightarrow> False | Some v \<Rightarrow> v \<noteq> [])"

text \<open>\<^verbatim>\<open>addressSchema\<close>: every field is required; a missing country gets the default.\<close>

definition address_defaults :: "address \<Rightarrow> address" where
  "address_defaults a = (case country a of None \<Rightarrow> a\<lparr>country := Some ''USA''\<rparr> | Some v \<Rightarrow> a)"

definition address_valid :: "address \<Rightarrow> bool" where
  "address_valid a =
     (required_string (street a) \<and> required_string (city a) \<and> required_string (state a) \<and>
      required_string (zipCode a) \<and> required_string (country a))"

definition order_item_valid :: "order_item \<Rightarrow> bool" where
  "order_item_valid item = (1 \<le> oi_quantity item)"

definition payment_methods :: "string list" where
  "payment_methods = [''credit_card'', ''paypal'', ''stripe'']"

definition order_statuses :: "string list" where
  "order_statuses = [''pending'', ''processing'', ''shipped'', ''delivered'', ''cancelled'']"

text \<open>
  The validators of \<^verbatim>\<open>orderSchema\<close>: the items' \<^verbatim>\<open>min: 1\<close>, the required payment method
  and its enum, the status' enum, and the embedded address when there is one.
\<close>

definition order_valid :: "order \<Rightarrow> bool" where
  "order_valid ord =
     (list_all order_item_valid (o_items ord) \<and>
      (case o_paymentMethod ord of None \<Rightarrow> False | Some pm \<Rightarrow> pm \<in> set payment_methods) \<and>
      (case o_shippingAddress ord of None \<Rightarrow> True | Some a \<Rightarrow> address_valid a) \<and>
      o_status ord \<in> set order_statuses)"

text \<open>
  \<^verbatim>\<open>new Order({ user, items, totalAmount, shippingAddress, paymentMethod })\<close>: the
  defaults of the schema fill the status, the tracking number and the address' country.
\<close>

definition new_order ::
  "oid \<Rightarrow> oid \<Rightarrow> order_item list \<Rightarrow> number \<Rightarrow> address option \<Rightarrow> string option \<Rightarrow> order" where
  "new_order i u items totalAmount shippingAddress paymentMethod =
     \<lparr>o_id = i, o_user = u, o_items = items, o_totalAmount = totalAmount,
      o_shippingAddress = map_option address_defaults shippingAddress,
      o_paymentMethod = paymentMethod, o_status = ''pending'', o_trackingNumber = []\<rparr>"

text \<open>\<^verbatim>\<open>order.save()\<close> of a new document, which took the store's next id.\<close>

definition order_insert :: "store \<Rightarrow> order \<Rightarrow> error + (store \<times> order)" where
  "order_insert st ord =
     (if order_valid ord
      then Inr (st\<lparr>orders := orders st @ [ord], next_id := next_id st + 1\<rparr>, ord)
      else Inl ValidationError)"

text \<open>\<^verbatim>\<open>order.save()\<close> of a loaded document: the first document with its id is rewritten.\<close>

fun replace_first :: "oid \<Rightarrow> order \<Rightarrow> order list \<Rightarrow> order list" where
  "replace_first i ord [] = []"
| "replace_first i ord (x # xs) = (if o_id x = i then ord # xs else x # replace_first i ord xs)"

definition order_update :: "store \<Rightarrow> order \<Rightarrow> error + (store \<times> order)" where
  "order_update st ord =
     (if order_valid ord
      then Inr (st\<lparr>orders := replace_first (o_id ord) ord (orders st)\<rparr>, ord)
      else Inl ValidationError)"

section \<open>The order routes\<close>

text \<open>\<^verbatim>\<open>GET /orders/:id\<close>: \<^verbatim>\<open>Order.findOne({ _id, user })\<close>.\<close>

definition get_order :: "store \<Rightarrow> oid \<Rightarrow> oid \<Rightarrow> store \<times> response" where
  "get_order st u orderId =
     (case find (\<lambda>ord. o_id ord = orderId \<and> o_user ord = u) (orders st) of
        None \<Rightarrow> (st, (404, Message ''Order not found''))
      | Some ord \<Rightarrow> (st, (200, OrderJson ord)))"

text \<open>
  The \<^verbatim>\<open>map\<close> of \<^verbatim>\<open>POST /orders\<close> over the populated cart. \<^verbatim>\<open>populate\<close> leaves
  \<^verbatim>\<open>null\<close> where the book is no longer in the catalog, and \<^verbatim>\<open>item.book._id\<close> throws there.
\<close>

fun order_items_of :: "store \<Rightarrow> cart_item list \<Rightarrow> error + order_item list" where
  "order_items_of st [] = Inr []"
| "order_items_of st (item # items) =
     (case books st (ci_book item) of
        None \<Rightarrow> Inl TypeError
      | Some bk \<Rightarrow>
          (case order_items_of st items of
             Inl e \<Rightarrow> Inl e
           | Inr rest \<Rightarrow>
               Inr (\<lparr>oi_book = ci_book item, oi_quantity = ci_quantity item, oi_price = ci_price item\<rparr> # rest)))"

text \<open>\<^verbatim>\<open>POST /orders\<close>. Every exception is answered with 400.\<close>

definition place_order :: "store \<Rightarrow> oid \<Rightarrow> address option \<Rightarrow> string option \<Rightarrow> store \<times> response" where
  "place_order st u shippingAddress paymentMethod =
     (case carts st u of
        None \<Rightarrow> (st, (400, Message ''Cart is empty''))
      | Some cart \<Rightarrow>
          if length (c_items cart) = 0 then (st, (400, Message ''Cart is empty''))
          else
            (case order_items_of st (c_items cart) of
               Inl e \<Rightarrow> (st, (400, ErrorMessage ''Error creating order''))
             | Inr orderItems \<Rightarrow>
                 (let ord = new_order (next_id st) u orderItems (c_totalAmount cart)
                              shippingAddress paymentMethod
                  in case order_insert st ord of
                       Inl e \<Rightarrow> (st, (400, ErrorMessage ''Error creating order''))
                     | Inr (st1, createdOrder) \<Rightarrow>
                         (case cart_save st1 u (cart\<lparr>c_items := [], c_totalAmount := 0\<rparr>) of
                            Inl e \<Rightarrow> (st1, (400, ErrorMessage ''Error creating order''))
                          | Inr (st2, saved) \<Rightarrow> (st2, (201, OrderJson createdOrder))))))"

text \<open>\<^verbatim>\<open>PUT /orders/:id/status\<close>.\<close>

definition update_order_status :: "store \<Rightarrow> oid \<Rightarrow> string \<Rightarrow> store \<times> response" where
  "update_order_status st orderId status =
     (if status \<notin> set [''pending'', ''processing'', ''shipped'', ''delivered'']
      then (st, (400, Message ''Invalid status''))
      else
        (case find (\<lambda>ord. o_id ord = orderId) (orders st) of
           None \<Rightarrow> (st, (404, Message ''Order not found''))
         | Some ord \<Rightarrow>
             (case order_update st (ord\<lparr>o_status := status\<rparr>) of
                Inl e \<Rightarrow> (st, (400, ErrorMessage ''Error updating order status''))
              | Inr (st', updatedOrder) \<Rightarrow> (st', (200, OrderJson updatedOrder)))))"

section \<open>The book routes that change the catalog\<close>

text \<open>\<^verbatim>\<open>trim: true\<close>, on the white space of ASCII.\<close>

definition is_space :: "char \<Rightarrow> bool" where
  "is_space c = (c \<in> set [CHR 0x20, CHR 0x09, CHR 0x0A, CHR 0x0B, CHR 0x0C, CHR 0x0D])"

definition trim :: "string \<Rightarrow> string" where
  "trim s = rev (dropWhile is_space (rev (dropWhile is_space s)))"

text \<open>The validators of \<^verbatim>\<open>bookSchema\<close>: the required strings and \<^verbatim>\<open>price: { min: 0 }\<close>.\<close>

definition book_valid :: "book \<Rightarrow> bool" where
  "book_valid bk =
     (b_title bk \<noteq> [] \<and> b_author bk \<noteq> [] \<and> b_description bk \<noteq> [] \<and> 0 \<le> b_price bk)"

definition falsy_string :: "string option \<Rightarrow> bool" where
  "falsy_string s = (case s of None \<Rightarrow> True | Some v \<Rightarrow> v = [])"

text \<open>\<^verbatim>\<open>PUT /books/:id\<close>; \<^verbatim>\<open>price || 0\<close> is 0 for a missing price.\<close>

definition update_book ::
  "store \<Rightarrow> oid \<Rightarrow> string option \<Rightarrow> string option \<Rightarrow> string option \<Rightarrow> number option \<Rightarrow> store \<times> response" where
  "update_book st bookId title author description price =
     (if falsy_string title \<or> falsy_string author \<or> falsy_string description
      then (st, (400, Message ''Title, author, and description are required fields''))
      else
        (case books st bookId of
           None \<Rightarrow> (st, (404, Message ''Book not found''))
         | Some bk \<Rightarrow>
             (let bk' = bk\<lparr>b_title := trim (the title), b_author := trim (the author),
                           b_description := the description,
                           b_price := (case price of None \<Rightarrow> 0 | Some p \<Rightarrow> p)\<rparr>
              in if book_valid bk'
                 then (st\<lparr>books := (books st)(bookId \<mapsto> bk')\<rparr>, (200, BookJson bk'))
                 else (st, (400, ErrorMessage ''Error updating book'')))))"

text \<open>\<^verbatim>\<open>DELETE /books/:id\<close>. Nothing follows the book into the carts or the orders.\<close>

definition delete_book :: "store \<Rightarrow> oid \<Rightarrow> store \<times> response" where
  "delete_book st bookId =
     (case books st bookId of
        None \<Rightarrow> (st, (404, Message ''Book not found''))
      | Some bk \<Rightarrow>
          (st\<lparr>books := (books st)(bookId := None)\<rparr>,
           (200, DeletedJson ''Book deleted successfully'' bookId (b_title bk))))"

section \<open>Requests\<close>

text \<open>The operations that are exposed, and the server's answer to a sequence of them.\<close>

datatype request =
  GetCart oid
  | AddItem oid oid "number option"
  | UpdateItem oid oid "number option"
  | RemoveItem oid oid
  | ClearCart oid
  | GetOrder oid oid
  | PlaceOrder oid "address option" "string option"
  | UpdateOrderStatus oid string
  | UpdateBook oid "string option" "string option" "string option" "number option"
  | DeleteBook oid

fun handle :: "store \<Rightarrow> request \<Rightarrow> store \<times> response" where
  "handle st (GetCart u) = get_cart st u"
| "handle st (AddItem u bookId q) = add_item st u bookId q"
| "handle st (UpdateItem u itemId q) = update_item st u itemId q"
| "handle st (RemoveItem u itemId) = remove_item st u itemId"
| "handle st (ClearCart u) = clear_cart st u"
| "handle st (GetOrder u orderId) = get_order st u orderId"
| "handle st (PlaceOrder u a pm) = place_order st u a pm"
| "handle st (UpdateOrderStatus orderId s) = update_order_status st orderId s"
| "handle st (UpdateBook bookId t a d p) = update_book st bookId t a d p"
| "handle st (DeleteBook bookId) = delete_book st bookId"

fun run :: "store \<Rightarrow> request list \<Rightarrow> store" where
  "run st [] = st"
| "run st (r # rs) = run (fst (handle st r)) rs"

section \<open>A store to run the handlers on\<close>

text \<open>
  Two books, the cart of user 7 with a line for each, the empty cart of user 9, no cart
  for anybody else, and one order that user 7 placed before.
\<close>

definition shop :: store where
  "shop =
     \<lparr>books = [1 \<mapsto> \<lparr>b_title = ''Emma'', b_author = ''Austen'', b_description = ''A novel'', b_price = 10\<rparr>,
               2 \<mapsto> \<lparr>b_title = ''Ulysses'', b_author = ''Joyce'', b_description = ''A novel'', b_price = 5\<rparr>],
      carts = [7 \<mapsto> \<lparr>c_items = [\<lparr>ci_id = 20, ci_book = 1, ci_quantity = 2, ci_price = 10\<rparr>,
                                   \<lparr>ci_id = 21, ci_book = 2, ci_quantity = 1, ci_price = 5\<rparr>],
                       c_totalAmount = 25\<rparr>,
               9 \<mapsto> \<lparr>c_items = [], c_totalAmount = 0\<rparr>],
      orders = [\<lparr>o_id = 25, o_user = 7,
                 o_items = [\<lparr>oi_book = 1, oi_quantity = 1, oi_price = 10\<rparr>],
                 o_totalAmount = 10, o_shippingAddress = None, o_paymentMethod = Some ''paypal'',
                 o_status = ''pending'', o_trackingNumber = []\<rparr>],
      next_id = 30\<rparr>"


section \<open>Rounding: basic facts\<close>

lemma round_even_of_int: "round_even (of_int n) = n"
  by (simp add: round_even_def)

lemma round_grid_small: "\<bar>s\<bar> < 2 ^ 53 \<Longrightarrow> round_grid s = of_int (round_even s)"
  by (subst round_grid.simps) simp

lemma round_grid_large: "2 ^ 53 \<le> \<bar>s\<bar> \<Longrightarrow> round_grid s = 2 * round_grid (s / 2)"
  by (subst round_grid.simps) simp

lemma round_grid_int: "\<bar>n\<bar> < 2 ^ 53 \<Longrightarrow> round_grid (of_int n * 2 ^ k) = of_int n * 2 ^ k"
proof (induction k)
  case 0
  then have "\<bar>of_int n :: rat\<bar> < 2 ^ 53"
    by (metis of_int_abs of_int_less_numeral_power_cancel_iff)
  then show ?case
    by (simp add: round_grid_small round_even_of_int)
next
  case (Suc k)
  have i: "(of_int n :: rat) * 2 ^ Suc k = of_int (n * 2 ^ Suc k)"
    by simp
  show ?case
  proof (cases "\<bar>(of_int n :: rat) * 2 ^ Suc k\<bar> < 2 ^ 53")
    case True
    then have "round_grid (of_int (n * 2 ^ Suc k)) = of_int (round_even (of_int (n * 2 ^ Suc k)))"
      unfolding i by (rule round_grid_small)
    then show ?thesis
      unfolding i round_even_of_int .
  next
    case False
    then have "round_grid (of_int n * 2 ^ Suc k) = 2 * round_grid (of_int n * 2 ^ Suc k / 2)"
      by (intro round_grid_large) simp
    also have "of_int n * 2 ^ Suc k / 2 = (of_int n :: rat) * 2 ^ k"
      by simp
    finally show ?thesis
      using Suc by simp
  qed
qed


text \<open>A number with a significand of 53 bits is a double, and rounds to itself.\<close>

lemma round_double_dyadic:
  assumes "\<bar>n\<bar> < 2 ^ 53" "j \<le> 1074"
  shows "round_double (of_int n / 2 ^ j) = of_int n / 2 ^ j"
proof -
  have "(of_int n :: rat) / 2 ^ j * 2 ^ 1074 = of_int n * 2 ^ (1074 - j)"
    using assms(2) by (simp add: power_diff)
  then show ?thesis
    using round_grid_int [OF assms(1), of "1074 - j"] assms(2)
    by (simp add: round_double_def power_diff)
qed

lemma round_double_of_int: "\<bar>n\<bar> < 2 ^ 53 \<Longrightarrow> round_double (of_int n) = of_int n"
  using round_double_dyadic [of n 0] by simp


lemma round_double_numeral [simp]:
  "(numeral w :: int) < 9007199254740992 \<Longrightarrow> round_double (numeral w) = numeral w"
  using round_double_of_int [of "numeral w"] by simp

lemma round_double_0 [simp]: "round_double 0 = 0"
  using round_double_of_int [of 0] by simp

lemma round_double_1 [simp]: "round_double 1 = 1"
  using round_double_of_int [of 1] by simp





section \<open>Arrays and save: basic facts\<close>



lemma findIndexFrom_eq:
  "findIndexFrom P i xs =
     (if \<exists>x\<in>set xs. P x then i + int (length (takeWhile (\<lambda>x. \<not> P x) xs)) else - 1)"
  by (induction xs arbitrary: i) auto

lemma findIndex_eq:
  "findIndex P xs =
     (if \<exists>x\<in>set xs. P x then int (length (takeWhile (\<lambda>x. \<not> P x) xs)) else - 1)"
  by (simp add: findIndex_def findIndexFrom_eq)

lemma findIndex_absent: "\<forall>x\<in>set xs. \<not> P x \<Longrightarrow> findIndex P xs = - 1"
  by (simp add: findIndex_eq)

lemma findIndex_first:
  "\<forall>x\<in>set pre. \<not> P x \<Longrightarrow> P y \<Longrightarrow> findIndex P (pre @ y # post) = int (length pre)"
  by (simp add: findIndex_eq)

lemma cart_save_valid:
  "cart_valid c \<Longrightarrow>
     cart_save st u c = Inr (st\<lparr>carts := (carts st)(u \<mapsto> cart_pre_save c)\<rparr>, cart_pre_save c)"
  by (simp add: cart_save_def Let_def)

lemma cart_save_invalid: "\<not> cart_valid c \<Longrightarrow> cart_save st u c = Inl ValidationError"
  by (simp add: cart_save_def)


lemmas eval_defs =
  add_item_def add_item_doc_def findIndex_def cart_save_def cart_valid_def cart_item_valid_def
  cart_pre_save_def reduce_total_def Let_def update_item_def remove_item_def clear_cart_def
  new_cart_def

lemmas order_eval_defs =
  place_order_def order_insert_def order_valid_def order_item_valid_def payment_methods_def
  order_statuses_def new_order_def address_valid_def address_defaults_def required_string_def
  update_order_status_def order_update_def get_order_def update_book_def delete_book_def
  book_valid_def falsy_string_def trim_def is_space_def get_cart_def

section \<open>The total of a cart\<close>





section \<open>Placing an order\<close>

text \<open>
  Claim C3. Place order answers 400 with the message \<open>Cart is empty\<close> whenever the user
  has no cart or a cart without items; the store it returns is the store it was given, so
  no order is created and nothing is changed.
\<close>

theorem place_order_empty_cart:
  "carts st u = None \<or> (\<exists>c. carts st u = Some c \<and> c_items c = []) \<Longrightarrow>
   place_order st u shippingAddress paymentMethod = (st, (400, Message ''Cart is empty''))"
  by (auto simp: place_order_def)

theorem place_order_empty_cart_witness:
  "carts shop 8 = None \<and>
   place_order shop 8 None (Some ''paypal'') = (shop, (400, Message ''Cart is empty'')) \<and>
   carts shop 9 = Some \<lparr>c_items = [], c_totalAmount = 0\<rparr> \<and>
   place_order shop 9 None (Some ''paypal'') = (shop, (400, Message ''Cart is empty''))"
  using place_order_empty_cart [of shop 8 None "Some ''paypal''"]
    place_order_empty_cart [of shop 9 None "Some ''paypal''"]
  by (simp add: shop_def)

section \<open>The cart routes: what they store\<close>

lemma cart_valid_line:
  "cart_valid \<lparr>c_items = pre @ line # post, c_totalAmount = t\<rparr> =
     (list_all cart_item_valid pre \<and> 1 \<le> ci_quantity line \<and> list_all cart_item_valid post)"
  by (simp add: cart_valid_def cart_item_valid_def)

lemma cart_update_eq:
  "cart\<lparr>c_items := items, c_totalAmount := t\<rparr> = \<lparr>c_items = items, c_totalAmount = t\<rparr>"
  by simp

lemma cart_pre_save_total:
  "cart_pre_save \<lparr>c_items = items, c_totalAmount = t\<rparr> = \<lparr>c_items = items, c_totalAmount = reduce_total items\<rparr>"
  by (simp add: cart_pre_save_def)














lemma update_item_found:
  assumes "1 \<le> q" "carts st u = Some cart" "cart_valid cart"
      and "c_items cart = pre @ line # post" "ci_id line = itemId" "\<forall>x\<in>set pre. ci_id x \<noteq> itemId"
  shows "update_item st u itemId (Some q) =
           (st\<lparr>carts := (carts st)(u \<mapsto>
                \<lparr>c_items = pre @ line\<lparr>ci_quantity := q\<rparr> # post,
                 c_totalAmount = reduce_total (pre @ line\<lparr>ci_quantity := q\<rparr> # post)\<rparr>)\<rparr>,
            (200, CartJson
                \<lparr>c_items = pre @ line\<lparr>ci_quantity := q\<rparr> # post,
                 c_totalAmount = reduce_total (pre @ line\<lparr>ci_quantity := q\<rparr> # post)\<rparr>))"
proof -
  have i: "findIndex (\<lambda>item. ci_id item = itemId) (pre @ line # post) = int (length pre)"
    using assms(5,6) by (simp add: findIndex_first)
  have v: "list_all cart_item_valid pre" "list_all cart_item_valid post"
    using assms(3,4) by (simp_all add: cart_valid_def)
  show ?thesis
    using assms(1,2,4) v
    by (simp add: update_item_def i cart_save_def cart_update_eq cart_valid_line cart_pre_save_total
        Let_def)
qed

text \<open>
  Claim C7. Update item quantity answers 400 when the quantity is missing or less than 1;
  then 404 when the user has no cart, and 404 when no line of the cart has the item id;
  in these cases the store is returned as it was. Otherwise it sets the quantity of the
  line with that id (the first one) to the requested value, leaves the other lines,
  recomputes the total and stores the cart.
\<close>

theorem update_item_cases:
  "(quantity_opt = None \<or> (\<exists>q. quantity_opt = Some q \<and> q < 1) \<longrightarrow>
      update_item st u itemId quantity_opt = (st, (400, Message ''Quantity must be at least 1''))) \<and>
   (quantity_opt = Some q \<and> 1 \<le> q \<and> carts st u = None \<longrightarrow>
      update_item st u itemId quantity_opt = (st, (404, Message ''Cart not found''))) \<and>
   (quantity_opt = Some q \<and> 1 \<le> q \<and> carts st u = Some cart \<and>
    (\<forall>x\<in>set (c_items cart). ci_id x \<noteq> itemId) \<longrightarrow>
      update_item st u itemId quantity_opt = (st, (404, Message ''Item not found in cart''))) \<and>
   (quantity_opt = Some q \<and> 1 \<le> q \<and> carts st u = Some cart \<and> cart_valid cart \<and>
    c_items cart = pre @ line # post \<and> ci_id line = itemId \<and> (\<forall>x\<in>set pre. ci_id x \<noteq> itemId) \<longrightarrow>
      update_item st u itemId quantity_opt =
        (st\<lparr>carts := (carts st)(u \<mapsto>
             \<lparr>c_items = pre @ line\<lparr>ci_quantity := q\<rparr> # post,
              c_totalAmount = reduce_total (pre @ line\<lparr>ci_quantity := q\<rparr> # post)\<rparr>)\<rparr>,
         (200, CartJson
             \<lparr>c_items = pre @ line\<lparr>ci_quantity := q\<rparr> # post,
              c_totalAmount = reduce_total (pre @ line\<lparr>ci_quantity := q\<rparr> # post)\<rparr>)))"
proof (intro conjI impI)
  assume "quantity_opt = None \<or> (\<exists>q. quantity_opt = Some q \<and> q < 1)"
  then show "update_item st u itemId quantity_opt = (st, (400, Message ''Quantity must be at least 1''))"
    by (auto simp: update_item_def)
next
  assume "quantity_opt = Some q \<and> 1 \<le> q \<and> carts st u = None"
  then show "update_item st u itemId quantity_opt = (st, (404, Message ''Cart not found''))"
    by (auto simp: update_item_def)
next
  assume "quantity_opt = Some q \<and> 1 \<le> q \<and> carts st u = Some cart \<and>
    (\<forall>x\<in>set (c_items cart). ci_id x \<noteq> itemId)"
  then show "update_item st u itemId quantity_opt = (st, (404, Message ''Item not found in cart''))"
    by (auto simp: update_item_def findIndex_absent)
next
  assume "quantity_opt = Some q \<and> 1 \<le> q \<and> carts st u = Some cart \<and> cart_valid cart \<and>
    c_items cart = pre @ line # post \<and> ci_id line = itemId \<and> (\<forall>x\<in>set pre. ci_id x \<noteq> itemId)"
  then show "update_item st u itemId quantity_opt =
        (st\<lparr>carts := (carts st)(u \<mapsto>
             \<lparr>c_items = pre @ line\<lparr>ci_quantity := q\<rparr> # post,
              c_totalAmount = reduce_total (pre @ line\<lparr>ci_quantity := q\<rparr> # post)\<rparr>)\<rparr>,
         (200, CartJson
             \<lparr>c_items = pre @ line\<lparr>ci_quantity := q\<rparr> # post,
              c_totalAmount = reduce_total (pre @ line\<lparr>ci_quantity := q\<rparr> # post)\<rparr>))"
    using update_item_found [of q st u cart pre line post itemId] by simp
qed

theorem update_item_cases_witness:
  "update_item shop 7 21 (Some 4) =
     (shop\<lparr>carts := (carts shop)(7 \<mapsto>
         \<lparr>c_items = [\<lparr>ci_id = 20, ci_book = 1, ci_quantity = 2, ci_price = 10\<rparr>,
                     \<lparr>ci_id = 21, ci_book = 2, ci_quantity = 4, ci_price = 5\<rparr>],
          c_totalAmount = 40\<rparr>)\<rparr>,
      (200, CartJson
         \<lparr>c_items = [\<lparr>ci_id = 20, ci_book = 1, ci_quantity = 2, ci_price = 10\<rparr>,
                     \<lparr>ci_id = 21, ci_book = 2, ci_quantity = 4, ci_price = 5\<rparr>],
          c_totalAmount = 40\<rparr>)) \<and>
   update_item shop 7 21 (Some 0) = (shop, (400, Message ''Quantity must be at least 1'')) \<and>
   update_item shop 8 21 (Some 4) = (shop, (404, Message ''Cart not found'')) \<and>
   update_item shop 7 22 (Some 4) = (shop, (404, Message ''Item not found in cart''))"
proof -
  let ?l1 = "\<lparr>ci_id = 20, ci_book = 1, ci_quantity = 2, ci_price = 10\<rparr>"
  let ?l2 = "\<lparr>ci_id = 21, ci_book = 2, ci_quantity = 1, ci_price = 5\<rparr>"
  let ?c7 = "\<lparr>c_items = [?l1, ?l2], c_totalAmount = 25\<rparr>"
  have a: "Some 0 = None \<or> (\<exists>q. Some 0 = Some q \<and> q < (1::rat))"
    by simp
  have b: "Some 4 = Some 4 \<and> 1 \<le> (4::rat) \<and> carts shop 8 = None"
    by (simp add: shop_def)
  have c: "Some 4 = Some 4 \<and> 1 \<le> (4::rat) \<and> carts shop 7 = Some ?c7 \<and>
           (\<forall>x\<in>set (c_items ?c7). ci_id x \<noteq> 22)"
    by (simp add: shop_def)
  have d: "Some 4 = Some 4 \<and> 1 \<le> (4::rat) \<and> carts shop 7 = Some ?c7 \<and> cart_valid ?c7 \<and>
           c_items ?c7 = [?l1] @ ?l2 # [] \<and> ci_id ?l2 = 21 \<and> (\<forall>x\<in>set [?l1]. ci_id x \<noteq> 21)"
    by (simp add: shop_def cart_valid_def cart_item_valid_def)
  note t = update_item_cases [where st = shop]
  from t [where u = 7 and itemId = 21 and quantity_opt = "Some 0", THEN conjunct1, THEN mp, OF a]
    t [where u = 8 and itemId = 21 and quantity_opt = "Some 4" and q = 4,
        THEN conjunct2, THEN conjunct1, THEN mp, OF b]
    t [where u = 7 and itemId = 22 and quantity_opt = "Some 4" and q = 4 and cart = ?c7,
        THEN conjunct2, THEN conjunct2, THEN conjunct1, THEN mp, OF c]
    t [where u = 7 and itemId = 21 and quantity_opt = "Some 4" and q = 4 and cart = ?c7
        and pre = "[?l1]" and line = ?l2 and post = "[]",
        THEN conjunct2, THEN conjunct2, THEN conjunct2, THEN mp, OF d]
  show ?thesis
    by (simp add: reduce_total_def plus_double_def times_double_def)
qed

lemma remove_item_valid:
  assumes "carts st u = Some cart" "cart_valid cart"
  shows "remove_item st u itemId =
           (st\<lparr>carts := (carts st)(u \<mapsto>
                \<lparr>c_items = filter (\<lambda>item. ci_id item \<noteq> itemId) (c_items cart),
                 c_totalAmount = reduce_total (filter (\<lambda>item. ci_id item \<noteq> itemId) (c_items cart))\<rparr>)\<rparr>,
            (200, CartJson
                \<lparr>c_items = filter (\<lambda>item. ci_id item \<noteq> itemId) (c_items cart),
                 c_totalAmount = reduce_total (filter (\<lambda>item. ci_id item \<noteq> itemId) (c_items cart))\<rparr>))"
proof -
  have "cart_valid \<lparr>c_items = filter (\<lambda>item. ci_id item \<noteq> itemId) (c_items cart), c_totalAmount = t\<rparr>" for t
    using assms(2) by (simp add: cart_valid_def list_all_iff)
  then show ?thesis
    using assms(1) by (simp add: remove_item_def cart_save_def cart_update_eq cart_pre_save_total Let_def)
qed

lemma store_same_cart: "carts st u = Some cart \<Longrightarrow> st\<lparr>carts := (carts st)(u \<mapsto> cart)\<rparr> = st"
  by (simp add: map_upd_triv)

text \<open>
  Claim C8. Remove item answers 404 exactly when the user has no cart. For a stored cart
  (valid, its total the sum of its lines) in which no line has the item id, the answer is
  200 and the store, so the items and the total, are unchanged. When one line has the id,
  that line is removed, the others stay in their order and the total is recomputed.
\<close>

theorem remove_item_cases:
  "(fst (snd (remove_item st u itemId)) = 404 \<longleftrightarrow> carts st u = None) \<and>
   (carts st u = None \<longrightarrow> remove_item st u itemId = (st, (404, Message ''Cart not found''))) \<and>
   (carts st u = Some cart \<and> cart_valid cart \<and> c_totalAmount cart = reduce_total (c_items cart) \<and>
    (\<forall>x\<in>set (c_items cart). ci_id x \<noteq> itemId) \<longrightarrow>
      remove_item st u itemId = (st, (200, CartJson cart))) \<and>
   (carts st u = Some cart \<and> cart_valid cart \<and>
    c_items cart = pre @ line # post \<and> ci_id line = itemId \<and>
    (\<forall>x\<in>set (pre @ post). ci_id x \<noteq> itemId) \<longrightarrow>
      remove_item st u itemId =
        (st\<lparr>carts := (carts st)(u \<mapsto> \<lparr>c_items = pre @ post, c_totalAmount = reduce_total (pre @ post)\<rparr>)\<rparr>,
         (200, CartJson \<lparr>c_items = pre @ post, c_totalAmount = reduce_total (pre @ post)\<rparr>)))"
proof (intro conjI impI)
  show "fst (snd (remove_item st u itemId)) = 404 \<longleftrightarrow> carts st u = None"
    by (simp add: remove_item_def Let_def cart_save_def split: option.splits)
next
  assume "carts st u = None"
  then show "remove_item st u itemId = (st, (404, Message ''Cart not found''))"
    by (simp add: remove_item_def)
next
  assume a: "carts st u = Some cart \<and> cart_valid cart \<and> c_totalAmount cart = reduce_total (c_items cart) \<and>
    (\<forall>x\<in>set (c_items cart). ci_id x \<noteq> itemId)"
  then have f: "filter (\<lambda>item. ci_id item \<noteq> itemId) (c_items cart) = c_items cart"
    by (simp add: filter_id_conv)
  have "\<lparr>c_items = c_items cart, c_totalAmount = reduce_total (c_items cart)\<rparr> = cart"
    using a by simp
  then show "remove_item st u itemId = (st, (200, CartJson cart))"
    using a remove_item_valid [of st u cart itemId] by (simp add: f store_same_cart)
next
  assume a: "carts st u = Some cart \<and> cart_valid cart \<and>
    c_items cart = pre @ line # post \<and> ci_id line = itemId \<and>
    (\<forall>x\<in>set (pre @ post). ci_id x \<noteq> itemId)"
  then have f: "filter (\<lambda>item. ci_id item \<noteq> itemId) (c_items cart) = pre @ post"
    by (simp add: filter_id_conv)
  show "remove_item st u itemId =
        (st\<lparr>carts := (carts st)(u \<mapsto> \<lparr>c_items = pre @ post, c_totalAmount = reduce_total (pre @ post)\<rparr>)\<rparr>,
         (200, CartJson \<lparr>c_items = pre @ post, c_totalAmount = reduce_total (pre @ post)\<rparr>))"
    using a remove_item_valid [of st u cart itemId] by (simp add: f)
qed

theorem remove_item_cases_witness:
  "remove_item shop 7 22 =
     (shop, (200, CartJson
         \<lparr>c_items = [\<lparr>ci_id = 20, ci_book = 1, ci_quantity = 2, ci_price = 10\<rparr>,
                     \<lparr>ci_id = 21, ci_book = 2, ci_quantity = 1, ci_price = 5\<rparr>],
          c_totalAmount = 25\<rparr>)) \<and>
   remove_item shop 7 20 =
     (shop\<lparr>carts := (carts shop)(7 \<mapsto>
         \<lparr>c_items = [\<lparr>ci_id = 21, ci_book = 2, ci_quantity = 1, ci_price = 5\<rparr>], c_totalAmount = 5\<rparr>)\<rparr>,
      (200, CartJson
         \<lparr>c_items = [\<lparr>ci_id = 21, ci_book = 2, ci_quantity = 1, ci_price = 5\<rparr>], c_totalAmount = 5\<rparr>)) \<and>
   remove_item shop 8 20 = (shop, (404, Message ''Cart not found''))"
proof -
  let ?l1 = "\<lparr>ci_id = 20, ci_book = 1, ci_quantity = 2, ci_price = 10\<rparr>"
  let ?l2 = "\<lparr>ci_id = 21, ci_book = 2, ci_quantity = 1, ci_price = 5\<rparr>"
  let ?c7 = "\<lparr>c_items = [?l1, ?l2], c_totalAmount = 25\<rparr>"
  have a: "carts shop 8 = None"
    by (simp add: shop_def)
  have b: "carts shop 7 = Some ?c7 \<and> cart_valid ?c7 \<and> c_totalAmount ?c7 = reduce_total (c_items ?c7) \<and>
           (\<forall>x\<in>set (c_items ?c7). ci_id x \<noteq> 22)"
    by (simp add: shop_def cart_valid_def cart_item_valid_def reduce_total_def plus_double_def
        times_double_def)
  have c: "carts shop 7 = Some ?c7 \<and> cart_valid ?c7 \<and>
           c_items ?c7 = [] @ ?l1 # [?l2] \<and> ci_id ?l1 = 20 \<and> (\<forall>x\<in>set ([] @ [?l2]). ci_id x \<noteq> 20)"
    by (simp add: shop_def cart_valid_def cart_item_valid_def)
  note t = remove_item_cases [where st = shop]
  from t [where u = 8 and itemId = 20, THEN conjunct2, THEN conjunct1, THEN mp, OF a]
    t [where u = 7 and itemId = 22 and cart = ?c7,
        THEN conjunct2, THEN conjunct2, THEN conjunct1, THEN mp, OF b]
    t [where u = 7 and itemId = 20 and cart = ?c7 and pre = "[]" and line = ?l1 and post = "[?l2]",
        THEN conjunct2, THEN conjunct2, THEN conjunct2, THEN mp, OF c]
  show ?thesis
    by (simp add: reduce_total_def plus_double_def times_double_def)
qed

section \<open>Placing an order: the order that is created\<close>

lemma order_items_of_resolved:
  "\<forall>item\<in>set items. books st (ci_book item) \<noteq> None \<Longrightarrow>
   order_items_of st items =
     Inr (map (\<lambda>item. \<lparr>oi_book = ci_book item, oi_quantity = ci_quantity item, oi_price = ci_price item\<rparr>) items)"
  by (induction items) auto

lemma order_items_valid:
  "cart_valid cart \<Longrightarrow>
   list_all order_item_valid
     (map (\<lambda>item. \<lparr>oi_book = ci_book item, oi_quantity = ci_quantity item, oi_price = ci_price item\<rparr>)
        (c_items cart))"
  by (simp add: cart_valid_def list_all_iff order_item_valid_def cart_item_valid_def)

text \<open>
  Claim C2, as the code has it. The claim promises an order for every cart that is not
  empty. The handler creates it when, besides, the request passes the validators of the
  order schema and every book of the cart is still in the catalog: the payment method is
  one of \<open>credit_card\<close>, \<open>paypal\<close>, \<open>stripe\<close>, and the shipping address is missing or has,
  after the country's default, five strings that are not empty. Then exactly one order is
  appended to the orders; its items are the cart's items, each copied with its book,
  quantity and price; its total amount is the total amount stored in the cart, whatever
  the items sum to; and the cart of the user is stored with no items and a total of 0.
  (The stored cart satisfies its own schema: every quantity is at least 1.)
\<close>

theorem place_order_creates_order:
  assumes "carts st u = Some cart" "c_items cart \<noteq> []" "cart_valid cart"
      and "\<forall>item\<in>set (c_items cart). books st (ci_book item) \<noteq> None"
      and "paymentMethod = Some pm" "pm \<in> set payment_methods"
      and "shippingAddress = None \<or>
           (\<exists>a. shippingAddress = Some a \<and> address_valid (address_defaults a))"
  shows "\<exists>ord st'.
           place_order st u shippingAddress paymentMethod = (st', (201, OrderJson ord)) \<and>
           orders st' = orders st @ [ord] \<and>
           o_user ord = u \<and>
           o_items ord =
             map (\<lambda>item. \<lparr>oi_book = ci_book item, oi_quantity = ci_quantity item, oi_price = ci_price item\<rparr>)
               (c_items cart) \<and>
           o_totalAmount ord = c_totalAmount cart \<and>
           carts st' = (carts st)(u \<mapsto> \<lparr>c_items = [], c_totalAmount = 0\<rparr>) \<and>
           books st' = books st"
proof -
  let ?items = "map (\<lambda>item. \<lparr>oi_book = ci_book item, oi_quantity = ci_quantity item, oi_price = ci_price item\<rparr>)
                  (c_items cart)"
  let ?ord = "new_order (next_id st) u ?items (c_totalAmount cart) shippingAddress paymentMethod"
  have valid: "order_valid ?ord"
    using order_items_valid [OF assms(3)] assms(5,6,7)
    by (auto simp: order_valid_def new_order_def order_statuses_def)
  have empty: "cart_valid (cart\<lparr>c_items := [], c_totalAmount := 0\<rparr>)"
    by (simp add: cart_valid_def)
  have pre: "cart_pre_save (cart\<lparr>c_items := [], c_totalAmount := 0\<rparr>) = \<lparr>c_items = [], c_totalAmount = 0\<rparr>"
    by (simp add: cart_pre_save_def reduce_total_def)
  have "place_order st u shippingAddress paymentMethod =
          (st\<lparr>orders := orders st @ [?ord], next_id := next_id st + 1,
              carts := (carts st)(u \<mapsto> \<lparr>c_items = [], c_totalAmount = 0\<rparr>)\<rparr>, (201, OrderJson ?ord))"
    using assms(1,2) valid
    by (simp add: place_order_def order_items_of_resolved [OF assms(4)] order_insert_def
        cart_save_valid [OF empty] pre Let_def)
  then show ?thesis
    by (simp add: new_order_def)
qed

theorem place_order_creates_order_witness:
  "\<exists>ord st'.
     place_order shop 7
       (Some \<lparr>street = Some ''1 Main St'', city = Some ''Springfield'', state = Some ''IL'',
              zipCode = Some ''62701'', country = None\<rparr>) (Some ''paypal'') =
       (st', (201, OrderJson ord)) \<and>
     orders st' = orders shop @ [ord] \<and>
     o_user ord = 7 \<and>
     o_items ord = [\<lparr>oi_book = 1, oi_quantity = 2, oi_price = 10\<rparr>,
                    \<lparr>oi_book = 2, oi_quantity = 1, oi_price = 5\<rparr>] \<and>
     o_totalAmount ord = 25 \<and>
     carts st' = (carts shop)(7 \<mapsto> \<lparr>c_items = [], c_totalAmount = 0\<rparr>) \<and>
     books st' = books shop"
proof -
  let ?a = "\<lparr>street = Some ''1 Main St'', city = Some ''Springfield'', state = Some ''IL'',
            zipCode = Some ''62701'', country = None\<rparr>"
  let ?c7 = "\<lparr>c_items = [\<lparr>ci_id = 20, ci_book = 1, ci_quantity = 2, ci_price = 10\<rparr>,
                      \<lparr>ci_id = 21, ci_book = 2, ci_quantity = 1, ci_price = 5\<rparr>],
           c_totalAmount = 25\<rparr>"
  have 1: "carts shop 7 = Some ?c7" by (simp add: shop_def)
  have 2: "c_items ?c7 \<noteq> []" by simp
  have 3: "cart_valid ?c7" by (simp add: cart_valid_def cart_item_valid_def)
  have 4: "\<forall>item\<in>set (c_items ?c7). books shop (ci_book item) \<noteq> None" by (simp add: shop_def)
  have 5: "Some ''paypal'' = Some ''paypal''" by simp
  have 6: "''paypal'' \<in> set payment_methods" by (simp add: payment_methods_def)
  have 7: "Some ?a = None \<or> (\<exists>a. Some ?a = Some a \<and> address_valid (address_defaults a))"
    by (simp add: address_valid_def address_defaults_def required_string_def)
  from place_order_creates_order [OF 1 2 3 4 5 6 7] show ?thesis
    by simp
qed

text \<open>
  The claim C2 as it is written fails on carts that are not empty: with a payment method
  outside the enum of the order schema (\<open>cash_on_delivery\<close>, which the documentation of
  the route lists), with a shipping address that lacks a required field, and with a cart
  whose book has been deleted from the catalog, the answer is 400, no order is created
  and the cart keeps its items.
\<close>

theorem place_order_rejected_counterexample:
  "carts shop 7 =
     Some \<lparr>c_items = [\<lparr>ci_id = 20, ci_book = 1, ci_quantity = 2, ci_price = 10\<rparr>,
                      \<lparr>ci_id = 21, ci_book = 2, ci_quantity = 1, ci_price = 5\<rparr>],
           c_totalAmount = 25\<rparr> \<and>
   place_order shop 7 None (Some ''cash_on_delivery'') =
     (shop, (400, ErrorMessage ''Error creating order'')) \<and>
   place_order shop 7
     (Some \<lparr>street = None, city = Some ''Springfield'', state = None, zipCode = None,
            country = Some ''USA''\<rparr>) (Some ''paypal'') =
     (shop, (400, ErrorMessage ''Error creating order'')) \<and>
   carts (fst (delete_book shop 2)) 7 = carts shop 7 \<and>
   place_order (fst (delete_book shop 2)) 7 None (Some ''paypal'') =
     (fst (delete_book shop 2), (400, ErrorMessage ''Error creating order''))"
  by (simp add: shop_def eval_defs order_eval_defs)

section \<open>The status of an order\<close>

lemma find_first:
  "\<forall>x\<in>set pre. \<not> P x \<Longrightarrow> P y \<Longrightarrow> find P (pre @ y # post) = Some y"
  by (induction pre) auto

lemma replace_first_first:
  "\<forall>x\<in>set pre. o_id x \<noteq> i \<Longrightarrow> o_id y = i \<Longrightarrow>
     replace_first i ord (pre @ y # post) = pre @ ord # post"
  by (induction pre) auto

lemma update_order_status_found:
  assumes "status \<in> set [''pending'', ''processing'', ''shipped'', ''delivered'']"
      and "orders st = pre @ ord # post" "\<forall>x\<in>set pre. o_id x \<noteq> orderId" "o_id ord = orderId"
      and "order_valid ord"
  shows "update_order_status st orderId status =
           (st\<lparr>orders := pre @ ord\<lparr>o_status := status\<rparr> # post\<rparr>,
            (200, OrderJson (ord\<lparr>o_status := status\<rparr>)))"
proof -
  have f: "find (\<lambda>x. o_id x = orderId) (orders st) = Some ord"
    using assms(2,3,4) by (simp add: find_first)
  have r: "replace_first orderId (ord\<lparr>o_status := status\<rparr>) (orders st) =
             pre @ ord\<lparr>o_status := status\<rparr> # post"
    using assms(2,3,4) by (simp add: replace_first_first)
  have v: "order_valid (ord\<lparr>o_status := status\<rparr>)"
    using assms(1,5) by (auto simp: order_valid_def order_statuses_def)
  show ?thesis
    using assms(1,4) f r v by (simp add: update_order_status_def order_update_def)
qed

text \<open>
  Claim C6. Update order status answers 400 and returns the store as it was for every
  status that is not \<open>pending\<close>, \<open>processing\<close>, \<open>shipped\<close> or \<open>delivered\<close>, so for
  \<open>cancelled\<close> and \<open>archived\<close>; for one of the four it answers 404 when no order has
  the id; and otherwise the order with the id (the first one; the stored order satisfying
  its schema) is stored with the new status, whatever its status was before, every other
  field of it and every other order staying as they were, and it is the body of the 200.
\<close>

theorem update_order_status_cases:
  "(status \<notin> set [''pending'', ''processing'', ''shipped'', ''delivered''] \<longrightarrow>
      update_order_status st orderId status = (st, (400, Message ''Invalid status''))) \<and>
   update_order_status st orderId ''cancelled'' = (st, (400, Message ''Invalid status'')) \<and>
   update_order_status st orderId ''archived'' = (st, (400, Message ''Invalid status'')) \<and>
   (status \<in> set [''pending'', ''processing'', ''shipped'', ''delivered''] \<and>
    (\<forall>ord\<in>set (orders st). o_id ord \<noteq> orderId) \<longrightarrow>
      update_order_status st orderId status = (st, (404, Message ''Order not found''))) \<and>
   (status \<in> set [''pending'', ''processing'', ''shipped'', ''delivered''] \<and>
    orders st = pre @ ord # post \<and> (\<forall>x\<in>set pre. o_id x \<noteq> orderId) \<and> o_id ord = orderId \<and>
    order_valid ord \<longrightarrow>
      update_order_status st orderId status =
        (st\<lparr>orders := pre @ ord\<lparr>o_status := status\<rparr> # post\<rparr>,
         (200, OrderJson (ord\<lparr>o_status := status\<rparr>))))"
proof -
  have nf: "(\<forall>ord\<in>set (orders st). o_id ord \<noteq> orderId) \<Longrightarrow>
            find (\<lambda>ord. o_id ord = orderId) (orders st) = None"
    by (simp add: find_None_iff)
  have 1: "status \<notin> set [''pending'', ''processing'', ''shipped'', ''delivered''] \<longrightarrow>
      update_order_status st orderId status = (st, (400, Message ''Invalid status''))"
    by (simp add: update_order_status_def)
  have 2: "update_order_status st orderId ''cancelled'' = (st, (400, Message ''Invalid status''))"
    by (simp add: update_order_status_def)
  have 3: "update_order_status st orderId ''archived'' = (st, (400, Message ''Invalid status''))"
    by (simp add: update_order_status_def)
  have 4: "status \<in> set [''pending'', ''processing'', ''shipped'', ''delivered''] \<and>
    (\<forall>ord\<in>set (orders st). o_id ord \<noteq> orderId) \<longrightarrow>
      update_order_status st orderId status = (st, (404, Message ''Order not found''))"
    by (auto simp: update_order_status_def nf)
  have 5: "status \<in> set [''pending'', ''processing'', ''shipped'', ''delivered''] \<and>
    orders st = pre @ ord # post \<and> (\<forall>x\<in>set pre. o_id x \<noteq> orderId) \<and> o_id ord = orderId \<and>
    order_valid ord \<longrightarrow>
      update_order_status st orderId status =
        (st\<lparr>orders := pre @ ord\<lparr>o_status := status\<rparr> # post\<rparr>,
         (200, OrderJson (ord\<lparr>o_status := status\<rparr>)))"
    using update_order_status_found [of status st pre ord post orderId] by blast
  from 1 2 3 4 5 show ?thesis
    by blast
qed

theorem update_order_status_cases_witness:
  "update_order_status
     (shop\<lparr>orders := orders shop @
        [\<lparr>o_id = 26, o_user = 9, o_items = [\<lparr>oi_book = 2, oi_quantity = 3, oi_price = 5\<rparr>],
          o_totalAmount = 15, o_shippingAddress = None, o_paymentMethod = Some ''stripe'',
          o_status = ''shipped'', o_trackingNumber = []\<rparr>]\<rparr>) 26 ''pending'' =
     (shop\<lparr>orders := orders shop @
        [\<lparr>o_id = 26, o_user = 9, o_items = [\<lparr>oi_book = 2, oi_quantity = 3, oi_price = 5\<rparr>],
          o_totalAmount = 15, o_shippingAddress = None, o_paymentMethod = Some ''stripe'',
          o_status = ''pending'', o_trackingNumber = []\<rparr>]\<rparr>,
      (200, OrderJson
         \<lparr>o_id = 26, o_user = 9, o_items = [\<lparr>oi_book = 2, oi_quantity = 3, oi_price = 5\<rparr>],
          o_totalAmount = 15, o_shippingAddress = None, o_paymentMethod = Some ''stripe'',
          o_status = ''pending'', o_trackingNumber = []\<rparr>)) \<and>
   update_order_status shop 25 ''refunded'' = (shop, (400, Message ''Invalid status'')) \<and>
   update_order_status shop 26 ''shipped'' = (shop, (404, Message ''Order not found''))"
proof -
  let ?o = "\<lparr>o_id = 26, o_user = 9, o_items = [\<lparr>oi_book = 2, oi_quantity = 3, oi_price = 5\<rparr>],
          o_totalAmount = 15, o_shippingAddress = None, o_paymentMethod = Some ''stripe'',
          o_status = ''shipped'', o_trackingNumber = []\<rparr>"
  let ?st = "shop\<lparr>orders := orders shop @ [?o]\<rparr>"
  have a: "''pending'' \<in> set [''pending'', ''processing'', ''shipped'', ''delivered''] \<and>
           orders ?st = orders shop @ ?o # [] \<and> (\<forall>x\<in>set (orders shop). o_id x \<noteq> 26) \<and>
           o_id ?o = 26 \<and> order_valid ?o"
    by (simp add: shop_def order_valid_def payment_methods_def order_statuses_def order_item_valid_def)
  have b: "''refunded'' \<notin> set [''pending'', ''processing'', ''shipped'', ''delivered'']"
    by simp
  have c: "''shipped'' \<in> set [''pending'', ''processing'', ''shipped'', ''delivered''] \<and>
           (\<forall>ord\<in>set (orders shop). o_id ord \<noteq> 26)"
    by (simp add: shop_def)
  from update_order_status_cases [where st = ?st and orderId = 26 and status = "''pending''"
        and pre = "orders shop" and ord = ?o and post = "[]",
        THEN conjunct2, THEN conjunct2, THEN conjunct2, THEN conjunct2, THEN mp, OF a]
    update_order_status_cases [where st = shop and orderId = 25 and status = "''refunded''",
        THEN conjunct1, THEN mp, OF b]
    update_order_status_cases [where st = shop and orderId = 26 and status = "''shipped''",
        THEN conjunct2, THEN conjunct2, THEN conjunct2, THEN conjunct1, THEN mp, OF c]
  show ?thesis
    by simp
qed

section \<open>Reading an order\<close>

lemma get_order_other:
  assumes "\<forall>ord\<in>set (orders st). o_id ord = orderId \<longrightarrow> o_user ord \<noteq> u"
  shows "get_order st u orderId = (st, (404, Message ''Order not found''))"
proof -
  from assms have "find (\<lambda>ord. o_id ord = orderId \<and> o_user ord = u) (orders st) = None"
    by (auto simp: find_None_iff)
  then show ?thesis
    by (simp add: get_order_def)
qed

lemma get_order_found:
  assumes "get_order st u orderId = (st', (200, OrderJson ord))"
  shows "st' = st \<and> ord \<in> set (orders st) \<and> o_id ord = orderId \<and> o_user ord = u"
proof -
  from assms have "st' = st"
    and "find (\<lambda>ord. o_id ord = orderId \<and> o_user ord = u) (orders st) = Some ord"
    by (auto simp: get_order_def split: option.splits)
  then show ?thesis
    by (auto simp: find_Some_iff)
qed

lemma get_order_own:
  assumes "ord \<in> set (orders st)" "o_id ord = orderId" "o_user ord = u"
      and "distinct (map o_id (orders st))"
  shows "get_order st u orderId = (st, (200, OrderJson ord))"
proof -
  from assms obtain x where x: "find (\<lambda>ord. o_id ord = orderId \<and> o_user ord = u) (orders st) = Some x"
    by (cases "find (\<lambda>ord. o_id ord = orderId \<and> o_user ord = u) (orders st)")
      (auto simp: find_None_iff)
  then have "x \<in> set (orders st)" "o_id x = orderId"
    by (auto simp: find_Some_iff)
  with assms have "x = ord"
    by (metis distinct_map inj_onD)
  with x show ?thesis
    by (simp add: get_order_def)
qed

text \<open>
  Claim C10. Get order by id looks for an order with the id and the requesting user. When
  every order with the id belongs to another user (or there is none), the answer is 404
  \<open>Order not found\<close>, not the order and not a 403; an answer of 200 carries an order of the
  store with the id and the requester as its user; and the requester's own order is
  returned (the ids of the orders being distinct).
\<close>

theorem get_order_ownership:
  "((\<forall>ord\<in>set (orders st). o_id ord = orderId \<longrightarrow> o_user ord \<noteq> u) \<longrightarrow>
      get_order st u orderId = (st, (404, Message ''Order not found''))) \<and>
   (get_order st u orderId = (st', (200, OrderJson ord)) \<longrightarrow>
      st' = st \<and> ord \<in> set (orders st) \<and> o_id ord = orderId \<and> o_user ord = u) \<and>
   (ord \<in> set (orders st) \<and> o_id ord = orderId \<and> o_user ord = u \<and>
    distinct (map o_id (orders st)) \<longrightarrow>
      get_order st u orderId = (st, (200, OrderJson ord)))"
  using get_order_other [of st orderId u] get_order_found [of st u orderId st' ord]
    get_order_own [of ord st orderId u]
  by blast

theorem get_order_ownership_witness:
  "get_order shop 8 25 = (shop, (404, Message ''Order not found'')) \<and>
   get_order shop 7 25 =
     (shop, (200, OrderJson
        \<lparr>o_id = 25, o_user = 7, o_items = [\<lparr>oi_book = 1, oi_quantity = 1, oi_price = 10\<rparr>],
         o_totalAmount = 10, o_shippingAddress = None, o_paymentMethod = Some ''paypal'',
         o_status = ''pending'', o_trackingNumber = []\<rparr>))"
proof -
  let ?o = "\<lparr>o_id = 25, o_user = 7, o_items = [\<lparr>oi_book = 1, oi_quantity = 1, oi_price = 10\<rparr>],
           o_totalAmount = 10, o_shippingAddress = None, o_paymentMethod = Some ''paypal'',
           o_status = ''pending'', o_trackingNumber = []\<rparr>"
  have a: "\<forall>ord\<in>set (orders shop). o_id ord = 25 \<longrightarrow> o_user ord \<noteq> 8"
    by (simp add: shop_def)
  have b: "?o \<in> set (orders shop) \<and> o_id ?o = 25 \<and> o_user ?o = 7 \<and> distinct (map o_id (orders shop))"
    by (simp add: shop_def)
  from get_order_ownership [where st = shop and u = 8 and orderId = 25, THEN conjunct1, THEN mp, OF a]
    get_order_ownership [where st = shop and u = 7 and orderId = 25 and ord = ?o,
        THEN conjunct2, THEN conjunct2, THEN mp, OF b]
  show ?thesis
    by simp
qed

section \<open>Orders are never rewritten\<close>

lemma cart_save_frame:
  "cart_save st u c = Inr (st', c') \<Longrightarrow>
     orders st' = orders st \<and> books st' = books st \<and> next_id st' = next_id st"
  by (auto simp: cart_save_def Let_def split: if_splits)

lemma cart_routes_orders:
  "orders (fst (get_cart st u)) = orders st"
  "orders (fst (add_item st u b q)) = orders st"
  "orders (fst (update_item st u i q)) = orders st"
  "orders (fst (remove_item st u i)) = orders st"
  "orders (fst (clear_cart st u)) = orders st"
  by (auto simp: get_cart_def add_item_def update_item_def remove_item_def clear_cart_def Let_def
      split: option.splits sum.splits prod.splits dest: cart_save_frame)

lemma book_routes_orders:
  "orders (fst (update_book st i t a ds p)) = orders st"
  "orders (fst (delete_book st i)) = orders st"
  by (auto simp: update_book_def delete_book_def Let_def split: option.splits)

lemma place_order_orders:
  "orders (fst (place_order st u a pm)) = orders st \<or>
   (\<exists>ord. orders (fst (place_order st u a pm)) = orders st @ [ord])"
  by (auto simp: place_order_def order_insert_def Let_def
      split: option.splits sum.splits prod.splits if_splits dest!: cart_save_frame)

lemma replace_first_status:
  "find (\<lambda>x. o_id x = i) xs = Some ord \<Longrightarrow>
   length (replace_first i (ord\<lparr>o_status := s\<rparr>) xs) = length xs \<and>
   (\<forall>n<length xs.
      o_id (replace_first i (ord\<lparr>o_status := s\<rparr>) xs ! n) = o_id (xs ! n) \<and>
      o_user (replace_first i (ord\<lparr>o_status := s\<rparr>) xs ! n) = o_user (xs ! n) \<and>
      o_items (replace_first i (ord\<lparr>o_status := s\<rparr>) xs ! n) = o_items (xs ! n) \<and>
      o_totalAmount (replace_first i (ord\<lparr>o_status := s\<rparr>) xs ! n) = o_totalAmount (xs ! n))"
proof (induction xs)
  case Nil
  then show ?case by simp
next
  case (Cons x xs)
  show ?case
  proof (cases "o_id x = i")
    case True
    with Cons.prems have "x = ord" by simp
    with True show ?thesis by (auto simp: nth_Cons split: nat.splits)
  next
    case False
    with Cons show ?thesis by (auto simp: nth_Cons split: nat.splits)
  qed
qed

lemma update_order_status_orders:
  "orders (fst (update_order_status st i s)) = orders st \<or>
   (\<exists>ord. find (\<lambda>x. o_id x = i) (orders st) = Some ord \<and>
          orders (fst (update_order_status st i s)) = replace_first i (ord\<lparr>o_status := s\<rparr>) (orders st))"
proof (cases "find (\<lambda>x. o_id x = i) (orders st)")
  case None
  then show ?thesis by (simp add: update_order_status_def)
next
  case (Some ord)
  then have "o_id ord = i" by (auto simp: find_Some_iff)
  with Some show ?thesis
    by (simp add: update_order_status_def order_update_def)
qed

lemma handle_orders_frame:
  assumes "n < length (orders st)"
  shows "n < length (orders (fst (handle st r))) \<and>
         o_id (orders (fst (handle st r)) ! n) = o_id (orders st ! n) \<and>
         o_user (orders (fst (handle st r)) ! n) = o_user (orders st ! n) \<and>
         o_items (orders (fst (handle st r)) ! n) = o_items (orders st ! n) \<and>
         o_totalAmount (orders (fst (handle st r)) ! n) = o_totalAmount (orders st ! n)"
proof (cases r)
  case (PlaceOrder u a pm)
  with assms place_order_orders [of st u a pm] show ?thesis
    by (auto simp: nth_append)
next
  case (UpdateOrderStatus i s)
  with assms update_order_status_orders [of st i s] replace_first_status [of i "orders st" _ s]
  show ?thesis
    by auto
qed (use assms in \<open>simp_all add: cart_routes_orders book_routes_orders get_order_def split: option.splits\<close>)

text \<open>
  Claim C5. No sequence of requests changes the content of an order that exists: after
  any requests, among them updates and deletions of books and every mutation of the
  carts, the order at the same position of the collection has the id, the user, the items
  (book, quantity, price) and the total amount it had.
\<close>

theorem order_content_frame:
  assumes "n < length (orders st)"
  shows "n < length (orders (run st rs)) \<and>
         o_id (orders (run st rs) ! n) = o_id (orders st ! n) \<and>
         o_user (orders (run st rs) ! n) = o_user (orders st ! n) \<and>
         o_items (orders (run st rs) ! n) = o_items (orders st ! n) \<and>
         o_totalAmount (orders (run st rs) ! n) = o_totalAmount (orders st ! n)"
  using assms
proof (induction rs arbitrary: st)
  case Nil
  then show ?case by simp
next
  case (Cons r rs)
  from handle_orders_frame [OF Cons.prems, of r] Cons.IH [of "fst (handle st r)"]
  show ?case by simp
qed

theorem order_content_frame_witness:
  "o_items (orders (run (run shop [PlaceOrder 7 None (Some ''paypal'')])
              [UpdateBook 1 (Some ''Emma'') (Some ''Austen'') (Some ''A novel'') (Some 99),
               AddItem 7 1 (Some 4), RemoveItem 7 20, DeleteBook 2,
               UpdateOrderStatus 30 ''shipped'']) ! 1) =
     [\<lparr>oi_book = 1, oi_quantity = 2, oi_price = 10\<rparr>, \<lparr>oi_book = 2, oi_quantity = 1, oi_price = 5\<rparr>] \<and>
   o_totalAmount (orders (run (run shop [PlaceOrder 7 None (Some ''paypal'')])
              [UpdateBook 1 (Some ''Emma'') (Some ''Austen'') (Some ''A novel'') (Some 99),
               AddItem 7 1 (Some 4), RemoveItem 7 20, DeleteBook 2,
               UpdateOrderStatus 30 ''shipped'']) ! 1) = 25"
proof -
  have o: "orders (run shop [PlaceOrder 7 None (Some ''paypal'')]) =
             orders shop @
               [\<lparr>o_id = 30, o_user = 7,
                 o_items = [\<lparr>oi_book = 1, oi_quantity = 2, oi_price = 10\<rparr>,
                            \<lparr>oi_book = 2, oi_quantity = 1, oi_price = 5\<rparr>],
                 o_totalAmount = 25, o_shippingAddress = None,
                 o_paymentMethod = Some ''paypal'', o_status = ''pending'', o_trackingNumber = []\<rparr>]"
    by (simp add: shop_def eval_defs order_eval_defs)
  have n: "1 < length (orders (run shop [PlaceOrder 7 None (Some ''paypal'')]))"
    unfolding o by (simp add: shop_def)
  from order_content_frame [OF n, of
      "[UpdateBook 1 (Some ''Emma'') (Some ''Austen'') (Some ''A novel'') (Some 99),
        AddItem 7 1 (Some 4), RemoveItem 7 20, DeleteBook 2, UpdateOrderStatus 30 ''shipped'']"]
  show ?thesis
    unfolding o by (simp add: shop_def)
qed

section \<open>What every stored document satisfies\<close>

text \<open>
  The theorems above about a stored cart or order assume what \<^verbatim>\<open>save()\<close> has checked
  when it wrote the document: the cart is valid and its total is the sum of its lines,
  the order is valid, and the ids of the orders are distinct. Every handler keeps these
  properties of the store, so they hold after every sequence of requests on a store that
  has them, the empty store for one.
\<close>

lemma handle_keeps_carts_consistent:
  assumes "\<forall>u c. carts st u = Some c \<longrightarrow> cart_valid c \<and> c_totalAmount c = reduce_total (c_items c)"
  shows "\<forall>u c. carts (fst (handle st r)) u = Some c \<longrightarrow>
           cart_valid c \<and> c_totalAmount c = reduce_total (c_items c)"
proof -
  have save: "cart_save st' v c = Inr (st'', c') \<Longrightarrow>
        \<forall>u c. carts st' u = Some c \<longrightarrow> cart_valid c \<and> c_totalAmount c = reduce_total (c_items c) \<Longrightarrow>
        \<forall>u c. carts st'' u = Some c \<longrightarrow> cart_valid c \<and> c_totalAmount c = reduce_total (c_items c)"
    for st' v c st'' c'
    by (auto simp: cart_save_def Let_def cart_pre_save_def cart_valid_def split: if_splits)
  show ?thesis
  proof (cases r)
    case (PlaceOrder u a pm)
    then show ?thesis
      using assms
      by (auto simp: place_order_def order_insert_def Let_def cart_save_def cart_pre_save_def
            cart_valid_def reduce_total_def
          split: option.splits sum.splits prod.splits if_splits)
  qed (use assms in \<open>auto simp: get_cart_def add_item_def update_item_def remove_item_def clear_cart_def
      get_order_def update_order_status_def order_update_def update_book_def delete_book_def Let_def
      split: option.splits sum.splits prod.splits if_splits dest!: save\<close>)
qed

lemma order_update_frame:
  "order_update st ord = Inr (st', ord') \<Longrightarrow>
     ord' = ord \<and> order_valid ord \<and> orders st' = replace_first (o_id ord) ord (orders st)"
  by (auto simp: order_update_def split: if_splits)

lemma replace_first_valid:
  "list_all order_valid xs \<Longrightarrow> order_valid ord \<Longrightarrow>
     list_all order_valid (replace_first i ord xs)"
  by (induction xs) auto

lemma handle_keeps_orders_valid:
  assumes "list_all order_valid (orders st)"
  shows "list_all order_valid (orders (fst (handle st r)))"
proof (cases r)
  case (PlaceOrder u a pm)
  then show ?thesis
    using assms
    by (auto simp: place_order_def order_insert_def Let_def
        split: option.splits sum.splits prod.splits if_splits dest!: cart_save_frame)
next
  case (UpdateOrderStatus i s)
  then show ?thesis
    using assms
    by (auto simp: update_order_status_def replace_first_valid
        split: option.splits sum.splits dest!: order_update_frame)
qed (use assms in \<open>simp_all add: cart_routes_orders book_routes_orders get_order_def
      split: option.splits\<close>)

lemma replace_first_ids: "o_id ord = i \<Longrightarrow> map o_id (replace_first i ord xs) = map o_id xs"
  by (induction xs) auto

lemma cart_routes_next_id:
  "next_id st \<le> next_id (fst (get_cart st u))"
  "next_id st \<le> next_id (fst (add_item st u b q))"
  "next_id st \<le> next_id (fst (update_item st u i q))"
  "next_id st \<le> next_id (fst (remove_item st u i))"
  "next_id st \<le> next_id (fst (clear_cart st u))"
  by (auto simp: get_cart_def add_item_def update_item_def remove_item_def clear_cart_def Let_def
      split: option.splits sum.splits prod.splits dest: cart_save_frame)

lemma handle_keeps_order_ids:
  assumes "distinct (map o_id (orders st))" "\<forall>ord\<in>set (orders st). o_id ord < next_id st"
  shows "distinct (map o_id (orders (fst (handle st r)))) \<and>
         (\<forall>ord\<in>set (orders (fst (handle st r))). o_id ord < next_id (fst (handle st r)))"
proof (cases r)
  case (PlaceOrder u a pm)
  let ?st' = "fst (place_order st u a pm)"
  have "(orders ?st' = orders st \<and> next_id ?st' = next_id st) \<or>
        (\<exists>ord. orders ?st' = orders st @ [ord] \<and> o_id ord = next_id st \<and>
               next_id ?st' = next_id st + 1)"
    by (auto simp: place_order_def order_insert_def new_order_def Let_def
        split: option.splits sum.splits prod.splits if_splits dest!: cart_save_frame)
  then show ?thesis
  proof
    assume "orders ?st' = orders st \<and> next_id ?st' = next_id st"
    with PlaceOrder assms show ?thesis by simp
  next
    assume "\<exists>ord. orders ?st' = orders st @ [ord] \<and> o_id ord = next_id st \<and>
               next_id ?st' = next_id st + 1"
    then obtain ord where o: "orders ?st' = orders st @ [ord]" "o_id ord = next_id st"
      "next_id ?st' = next_id st + 1"
      by blast
    have "next_id st \<notin> o_id ` set (orders st)"
      using assms(2) by auto
    with PlaceOrder assms o show ?thesis
      by (auto simp: less_Suc_eq)
  qed
next
  case (UpdateOrderStatus i s)
  show ?thesis
  proof (cases "find (\<lambda>x. o_id x = i) (orders st)")
    case None
    with UpdateOrderStatus assms show ?thesis by (simp add: update_order_status_def)
  next
    case (Some ord)
    then have i: "o_id ord = i" by (auto simp: find_Some_iff)
    have "map o_id (orders (fst (handle st r))) = map o_id (orders st) \<and>
          next_id (fst (handle st r)) = next_id st"
      using UpdateOrderStatus Some i
      by (simp add: update_order_status_def order_update_def replace_first_ids)
    then have m: "map o_id (orders (fst (handle st r))) = map o_id (orders st)"
      and n: "next_id (fst (handle st r)) = next_id st"
      by simp_all
    have "o_id ` set (orders (fst (handle st r))) = o_id ` set (orders st)"
      using m by (metis set_map)
    with assms m n show ?thesis
      by (metis (no_types, lifting) imageE imageI)
  qed
next
  case (GetCart u)
  with assms cart_routes_next_id(1) [of st u] show ?thesis
    by (fastforce simp: cart_routes_orders)
next
  case (AddItem u b q)
  with assms cart_routes_next_id(2) [of st u b q] show ?thesis
    by (fastforce simp: cart_routes_orders)
next
  case (UpdateItem u i q)
  with assms cart_routes_next_id(3) [of st u i q] show ?thesis
    by (fastforce simp: cart_routes_orders)
next
  case (RemoveItem u i)
  with assms cart_routes_next_id(4) [of st u i] show ?thesis
    by (fastforce simp: cart_routes_orders)
next
  case (ClearCart u)
  with assms cart_routes_next_id(5) [of st u] show ?thesis
    by (fastforce simp: cart_routes_orders)
qed (use assms in \<open>auto simp: get_order_def update_book_def delete_book_def Let_def split: option.splits\<close>)

lemma run_keeps_carts_consistent:
  "\<forall>u c. carts st u = Some c \<longrightarrow> cart_valid c \<and> c_totalAmount c = reduce_total (c_items c) \<Longrightarrow>
   \<forall>u c. carts (run st rs) u = Some c \<longrightarrow> cart_valid c \<and> c_totalAmount c = reduce_total (c_items c)"
proof (induction rs arbitrary: st)
  case Nil
  then show ?case by simp
next
  case (Cons r rs)
  from Cons.IH [OF handle_keeps_carts_consistent [OF Cons.prems, of r]] show ?case by simp
qed

lemma run_keeps_orders_valid:
  "list_all order_valid (orders st) \<Longrightarrow> list_all order_valid (orders (run st rs))"
  by (induction rs arbitrary: st) (simp_all add: handle_keeps_orders_valid)

lemma run_keeps_order_ids:
  "distinct (map o_id (orders st)) \<and> (\<forall>ord\<in>set (orders st). o_id ord < next_id st) \<Longrightarrow>
   distinct (map o_id (orders (run st rs))) \<and>
   (\<forall>ord\<in>set (orders (run st rs)). o_id ord < next_id (run st rs))"
proof (induction rs arbitrary: st)
  case Nil
  then show ?case by simp
next
  case (Cons r rs)
  from Cons.prems handle_keeps_order_ids [of st r]
  have "distinct (map o_id (orders (fst (handle st r)))) \<and>
         (\<forall>ord\<in>set (orders (fst (handle st r))). o_id ord < next_id (fst (handle st r)))"
    by blast
  from Cons.IH [OF this] show ?case by simp
qed

end
